theory Spec2Isabelle
  imports Complex_Main
begin

section \<open>The notebook as a document\<close>

text \<open>
  The repository is one Jupyter notebook, \<^verbatim>\<open>src/notebook.ipynb\<close>: a list of cells. A code
  cell holds its source lines; a markdown cell holds narrative prose, fenced code blocks
  (shell transcripts and a Python example for the reader) and the result tables printed by
  the benchmark tool. Prose and tables are kept as markers only; every line of code, in a
  code cell or inside a fence, is kept character by character.

  In the notebook file each source line but the last of a cell ends with a newline; the
  lines below are written without it and \<open>unlines\<close> puts it back. A line that ends with
  the shell's continuation backslash is written \<open>cont ''...''\<close>, and the apostrophe that
  ends the last line of the request cell is written \<open>CHR 0x27\<close>.
\<close>

definition cont :: "string \<Rightarrow> string" where
  "cont s = s @ [CHR 0x5C]"

fun unlines :: "string list \<Rightarrow> string" where
  "unlines [] = []"
| "unlines [l] = l"
| "unlines (l # ls) = l @ CHR 0x0A # unlines ls"

datatype md_block = Prose | Fence string "string list" | ResultTable

datatype cell = Markdown "md_block list" | Code "string list"

subsection \<open>The code cells\<close>

definition install_cell :: "string list" where
  \<open>install_cell =
   [''# Install Pytorch, Deepspeed & Hugging Face libraries'',
    ''%pip install "torch==2.4.0" tensorboard "transformers==4.44.2" "datasets==2.21.0" "accelerate==0.33.0" "deepspeed==0.14.5"'',
    ''# Download and install Medusa packages'',
    ''# !git clone https://github.com/philschmid/Medusa'',
    ''# !cd Medusa && pip install -e .'']\<close>

definition fetch_cell :: "string list" where
  \<open>fetch_cell =
   [''from datasets import load_dataset'',
    ''import json'',
    '''',
    ''# Load the dataset'',
    ''dataset = load_dataset("philschmid/text-to-sql-dataset-medusa")'',
    '''',
    ''# Save the train dataset as list to disk as JSON'',
    ''with open("train_dataset.json", "w") as f:'',
    ''    json.dump(list(dataset["train"]["messages"]), f)'']\<close>

definition train_cell :: "string list" where
  \<open>train_cell =
   [cont ''!torchrun --nproc_per_node=4  Medusa/medusa/train/train_legacy.py '',
    cont ''    --model_name_or_path philschmid/code-llama-3-1-8b-text-to-sql '',
    cont ''    --data_path train_dataset.json '',
    cont ''    --bf16 True '',
    cont ''    --output_dir code_llama31 '',
    cont ''    --num_train_epochs 5 '',
    cont ''    --per_device_train_batch_size 1 '',
    cont ''    --gradient_accumulation_steps 4 '',
    cont ''    --eval_strategy "no" '',
    cont ''    --save_strategy "epoch" '',
    cont ''    --learning_rate 5e-4 '',
    cont ''    --lr_scheduler_type "cosine" '',
    cont ''    --warmup_steps 40 '',
    cont ''    --logging_steps 10 '',
    cont ''    --tf32 True '',
    cont ''    --model_max_length 2048 '',
    cont ''    --lazy_preprocess False '',
    cont ''    --medusa_num_heads 3 '',
    cont ''    --medusa_num_layers 1 '',
    ''    --deepspeed ./Medusa/deepspeed.json'']\<close>

definition upload_cell :: "string list" where
  \<open>upload_cell =
   [cont ''!python -m medusa.hf_utils '',
    cont ''    --folder code_llama31_medusa '',
    ''    --repo philschmid/code-llama-3-1-8b-text-to-sql-medusa '']\<close>

definition request_cell :: "string list" where
  \<open>request_cell =
   [''%%bash'',
    cont ''curl localhost:8080/v1/chat/completions '',
    cont ''    -X POST '',
    ''    -d '{'',
    ''  "model": "tgi",'',
    ''  "messages": ['',
    ''    {'',
    ''      "role": "user",'',
    ''      "content": "Write a poem for my three year old"'',
    ''    }'',
    ''  ],'',
    ''  "stream": false,'',
    ''  "max_tokens": 250'',
    cont ''}' '',
    ''    -H 'Content-Type: application/json'' @ [CHR 0x27]]\<close>

definition guidellm_install_cell :: "string list" where
  \<open>guidellm_install_cell = [''!pip install guidellm'']\<close>

subsection \<open>The fenced blocks of the markdown cells\<close>

definition server_medusa_fence :: "string list" where
  \<open>server_medusa_fence =
   [cont ''CUDA_VISIBLE_DEVICES=0 docker run --gpus all -ti --shm-size 1g --ipc=host --rm -p 8080:80 '',
    cont ''  -e MODEL_ID=philschmid/code-llama-3-1-8b-text-to-sql-medusa '',
    cont ''  -e NUM_SHARD=1 '',
    cont ''  -e MAX_INPUT_TOKENS=4096 '',
    cont ''  -e MAX_TOTAL_TOKENS=6000 '',
    ''  ghcr.io/huggingface/text-generation-inference:sha-b70ae09'']\<close>

definition test_set_fence :: "string list" where
  \<open>test_set_fence =
   [''from datasets import load_dataset'',
    ''from transformers import AutoTokenizer'',
    '''',
    ''# Load the dataset'',
    ''dataset = load_dataset("philschmid/text-to-sql-dataset-medusa")'',
    ''tokenizer = AutoTokenizer.from_pretrained("philschmid/code-llama-3-1-8b-text-to-sql")'',
    '''',
    ''def create_text_field(samples):'',
    ''    prompt = tokenizer.apply_chat_template(samples["messages"][0:2], tokenize=False)'',
    ''    return {"text": prompt}'',
    ''  '',
    ''td = dataset["test"].map(create_text_field)'',
    ''td.push_to_hub("philschmid/text-to-sql-dataset-medusa-test-chatml")'']\<close>

definition benchmark_fence :: "string list" where
  \<open>benchmark_fence =
   [cont ''guidellm '',
    cont ''  --target "http://localhost:8080/v1" '',
    cont ''  --model philschmid/code-llama-3-1-8b-text-to-sql-medusa '',
    cont ''  --data philschmid/text-to-sql-dataset-medusa-test-chatml '',
    cont ''  --data-type transformers '',
    cont ''  --max-seconds 60 '',
    ''  --output-path benchmark_medusa.json'']\<close>

definition server_baseline_fence :: "string list" where
  \<open>server_baseline_fence =
   [cont ''CUDA_VISIBLE_DEVICES=0 docker run --gpus all -ti --shm-size 1g --ipc=host --rm -p 8080:80 '',
    cont ''  -e MODEL_ID=philschmid/code-llama-3-1-8b-text-to-sql '',
    cont ''  -e NUM_SHARD=1 '',
    cont ''  -e MAX_INPUT_TOKENS=4096 '',
    cont ''  -e MAX_TOTAL_TOKENS=6000 '',
    ''  ghcr.io/huggingface/text-generation-inference:sha-b70ae09'']\<close>

subsection \<open>The cells in order\<close>

definition notebook :: "cell list" where
  "notebook =
   [Markdown [Prose],
    Code install_cell,
    Markdown [Prose],
    Code fetch_cell,
    Markdown [Prose],
    Code train_cell,
    Markdown [Prose],
    Code upload_cell,
    Markdown [Prose, Fence ''bash'' server_medusa_fence],
    Markdown [Prose],
    Code request_cell,
    Markdown [Prose, Fence ''python'' test_set_fence],
    Code guidellm_install_cell,
    Markdown [Prose, Fence ''bash'' benchmark_fence, Prose, ResultTable,
              Prose, Fence ''Bash'' server_baseline_fence, Prose, ResultTable],
    Code [],
    Markdown []]"

section \<open>How the kernel reads a code cell\<close>

text \<open>
  IPython decides what a code cell is from its first characters:
  \<^item> a cell whose first line is \<^verbatim>\<open>%%bash\<close> is a cell magic: the remaining lines are one script
    for \<^verbatim>\<open>bash\<close>;
  \<^item> a line that starts with \<^verbatim>\<open>!\<close> is a shell escape: the text after the mark, continuation
    lines included, goes to the system shell;
  \<^item> a line that starts with \<^verbatim>\<open>%\<close> is a line magic; the only one in the notebook is
    \<^verbatim>\<open>%pip\<close>, which runs \<^verbatim>\<open>pip\<close> through the same system call as a shell escape;
  \<^item> anything else is Python.
  Comment lines and blank lines execute nothing. A cell with no line left is not executed.
  Every code cell of this notebook holds one statement of one kind, which is what
  \<open>cell_statement\<close> returns.
\<close>

definition is_blank :: "char \<Rightarrow> bool" where
  "is_blank c = (c = CHR '' '' \<or> c = CHR 0x09)"

definition is_comment :: "string \<Rightarrow> bool" where
  "is_comment l = (case dropWhile is_blank l of [] \<Rightarrow> True | c # _ \<Rightarrow> c = CHR ''#'')"

datatype statement =
    BashCell string
  | ShellEscape string
  | LineMagic string
  | PythonCode "string list"

definition cell_statement :: "string list \<Rightarrow> statement option" where
  "cell_statement ls =
     (case ls of
        [] \<Rightarrow> None
      | first # script \<Rightarrow>
          if first = ''%%bash'' then Some (BashCell (unlines script))
          else
            (case filter (\<lambda>l. \<not> is_comment l) ls of
               [] \<Rightarrow> None
             | [] # _ \<Rightarrow> None
             | (c # l) # more \<Rightarrow>
                 if c = CHR ''!'' then Some (ShellEscape (unlines (l # more)))
                 else if c = CHR ''%'' then Some (LineMagic (unlines (l # more)))
                 else Some (PythonCode ((c # l) # more))))"

section \<open>How the shell splits a command into words\<close>

text \<open>
  The commands of the notebook are simple commands: words separated by blanks, some of them
  quoted, spread over several lines with a backslash before each newline. \<open>sh_lex\<close> reads
  such a command as the shell does:
  \<^item> outside quotes a backslash followed by a newline is removed, a backslash before any
    other character keeps that character, a blank ends the current word;
  \<^item> between apostrophes every character is kept as it is;
  \<^item> between double quotes every character is kept, and the quotes themselves are removed.
  Anything else the shell would interpret (an unquoted newline, a pipe, a redirection, a
  variable, a substitution, a glob, a brace, an escape inside double quotes) or an unclosed
  quote gives \<open>None\<close>: the command is then not a simple command of this form. The word
  in progress is kept reversed in the second argument.
\<close>

datatype quoting = Unquoted | SingleQuoted | DoubleQuoted

definition push :: "char \<Rightarrow> string option \<Rightarrow> string option" where
  "push c w = Some (case w of None \<Rightarrow> [c] | Some s \<Rightarrow> c # s)"

definition begin_word :: "string option \<Rightarrow> string option" where
  "begin_word w = Some (case w of None \<Rightarrow> [] | Some s \<Rightarrow> s)"

definition flush :: "string option \<Rightarrow> string list" where
  "flush w = (case w of None \<Rightarrow> [] | Some s \<Rightarrow> [rev s])"

definition is_meta :: "char \<Rightarrow> bool" where
  "is_meta c = (c \<in> set ''|&;<>()$#*?[~{}!'' \<or> c = CHR 0x60 \<or> c = CHR 0x0A)"

fun sh_lex :: "quoting \<Rightarrow> string option \<Rightarrow> string \<Rightarrow> string list option" where
  "sh_lex Unquoted w [] = Some (flush w)"
| "sh_lex SingleQuoted w [] = None"
| "sh_lex DoubleQuoted w [] = None"
| "sh_lex Unquoted w (c # cs) =
     (if c = CHR 0x5C then
        (case cs of
           [] \<Rightarrow> None
         | d # ds \<Rightarrow> if d = CHR 0x0A then sh_lex Unquoted w ds else sh_lex Unquoted (push d w) ds)
      else if c = CHR 0x27 then sh_lex SingleQuoted (begin_word w) cs
      else if c = CHR 0x22 then sh_lex DoubleQuoted (begin_word w) cs
      else if is_blank c then map_option (\<lambda>r. flush w @ r) (sh_lex Unquoted None cs)
      else if is_meta c then None
      else sh_lex Unquoted (push c w) cs)"
| "sh_lex SingleQuoted w (c # cs) =
     (if c = CHR 0x27 then sh_lex Unquoted w cs else sh_lex SingleQuoted (push c w) cs)"
| "sh_lex DoubleQuoted w (c # cs) =
     (if c = CHR 0x22 then sh_lex Unquoted w cs
      else if c = CHR 0x5C \<or> c = CHR 0x24 \<or> c = CHR 0x60 then None
      else sh_lex DoubleQuoted (push c w) cs)"

definition shell_words :: "string \<Rightarrow> string list option" where
  "shell_words s = sh_lex Unquoted None s"

definition statement_words :: "statement \<Rightarrow> string list option" where
  "statement_words st =
     (case st of
        BashCell s \<Rightarrow> shell_words s
      | ShellEscape s \<Rightarrow> shell_words s
      | LineMagic s \<Rightarrow> shell_words s
      | PythonCode ls \<Rightarrow> None)"

definition code_words :: "string list \<Rightarrow> string list option" where
  "code_words ls = (case cell_statement ls of None \<Rightarrow> None | Some st \<Rightarrow> statement_words st)"

definition fence_words :: "string list \<Rightarrow> string list option" where
  "fence_words ls = shell_words (unlines ls)"

definition command :: "string list option \<Rightarrow> string list" where
  "command r = (case r of None \<Rightarrow> [] | Some ws \<Rightarrow> ws)"

text \<open>The commands of the notebook, as the words their programs receive.\<close>

definition install_command :: "string list" where
  "install_command = command (code_words install_cell)"

definition train_command :: "string list" where
  "train_command = command (code_words train_cell)"

definition upload_command :: "string list" where
  "upload_command = command (code_words upload_cell)"

definition request_command :: "string list" where
  "request_command = command (code_words request_cell)"

definition guidellm_install_command :: "string list" where
  "guidellm_install_command = command (code_words guidellm_install_cell)"

definition server_command :: "string list" where
  "server_command = command (fence_words server_medusa_fence)"

definition benchmark_command :: "string list" where
  "benchmark_command = command (fence_words benchmark_fence)"

definition baseline_server_command :: "string list" where
  "baseline_server_command = command (fence_words server_baseline_fence)"

section \<open>Reading a command's arguments\<close>

text \<open>
  \<open>option_arg flag ws\<close> is the word that follows the first \<open>flag\<close>; \<open>option_args\<close>
  collects the word after every occurrence (\<^verbatim>\<open>docker run\<close> takes one \<^verbatim>\<open>-e NAME=value\<close>
  per environment variable of the container). A command may start with assignments
  \<^verbatim>\<open>NAME=value\<close> for its own environment; \<open>program\<close> is what follows them.
\<close>

fun option_arg :: "string \<Rightarrow> string list \<Rightarrow> string option" where
  "option_arg flag [] = None"
| "option_arg flag [w] = None"
| "option_arg flag (w # v # ws) = (if w = flag then Some v else option_arg flag (v # ws))"

fun option_args :: "string \<Rightarrow> string list \<Rightarrow> string list" where
  "option_args flag [] = []"
| "option_args flag [w] = []"
| "option_args flag (w # v # ws) =
     (if w = flag then v # option_args flag ws else option_args flag (v # ws))"

definition assignment :: "string \<Rightarrow> string \<times> string" where
  "assignment w =
     (takeWhile (\<lambda>c. c \<noteq> CHR ''='') w, drop 1 (dropWhile (\<lambda>c. c \<noteq> CHR ''='') w))"

definition container_env :: "string list \<Rightarrow> (string \<times> string) list" where
  "container_env ws = map assignment (option_args ''-e'' ws)"

definition digit_of :: "char \<Rightarrow> nat option" where
  "digit_of c = map_of (zip ''0123456789'' [0, 1, 2, 3, 4, 5, 6, 7, 8, 9]) c"

definition is_name_char :: "char \<Rightarrow> bool" where
  "is_name_char c =
     (c \<in> set ''ABCDEFGHIJKLMNOPQRSTUVWXYZabcdefghijklmnopqrstuvwxyz0123456789_'')"

definition is_assignment :: "string \<Rightarrow> bool" where
  "is_assignment w =
     (case takeWhile is_name_char w of
        [] \<Rightarrow> False
      | c # n \<Rightarrow> digit_of c = None \<and> take 1 (dropWhile is_name_char w) = ''='')"

definition program :: "string list \<Rightarrow> string list" where
  "program ws = dropWhile is_assignment ws"

fun starts_with :: "string \<Rightarrow> string \<Rightarrow> bool" where
  "starts_with [] s = True"
| "starts_with (p # ps) [] = False"
| "starts_with (p # ps) (c # cs) = (p = c \<and> starts_with ps cs)"

fun contains :: "string \<Rightarrow> string \<Rightarrow> bool" where
  "contains p [] = (p = [])"
| "contains p (c # cs) = (starts_with p (c # cs) \<or> contains p cs)"

section \<open>JSON\<close>

text \<open>
  The body of the test request is a JSON text, and the dataset cell writes a JSON document.
  \<open>json_loads\<close> reads a text in two passes, characters to tokens and tokens to a value
  with a stack of open arrays and objects. It covers the JSON the notebook uses: objects,
  arrays, strings without escapes, unsigned integers, \<^verbatim>\<open>true\<close>, \<^verbatim>\<open>false\<close> and \<^verbatim>\<open>null\<close>;
  any other text gives \<open>None\<close>.
\<close>

datatype json =
    JNull
  | JBool bool
  | JNumber nat
  | JString string
  | JArray "json list"
  | JObject "(string \<times> json) list"

datatype jtoken =
    TLBrace | TRBrace | TLBracket | TRBracket | TColon | TComma
  | TString string | TNumber nat | TWord string

datatype lex_state = Between | InString string | InNumber nat | InWord string

definition is_space :: "char \<Rightarrow> bool" where
  "is_space c = (c = CHR '' '' \<or> c = CHR 0x09 \<or> c = CHR 0x0A \<or> c = CHR 0x0D)"

definition is_lower :: "char \<Rightarrow> bool" where
  "is_lower c = (c \<in> set ''abcdefghijklmnopqrstuvwxyz'')"

definition punctuation :: "char \<Rightarrow> jtoken option" where
  "punctuation c =
     map_of [(CHR ''{'', TLBrace), (CHR ''}'', TRBrace), (CHR ''['', TLBracket),
             (CHR '']'', TRBracket), (CHR '':'', TColon), (CHR '','', TComma)] c"

definition lex_between :: "char \<Rightarrow> (jtoken list \<times> lex_state) option" where
  "lex_between c =
     (if c = CHR 0x22 then Some ([], InString [])
      else if is_space c then Some ([], Between)
      else if is_lower c then Some ([], InWord [c])
      else case digit_of c of
             Some d \<Rightarrow> Some ([], InNumber d)
           | None \<Rightarrow> (case punctuation c of Some t \<Rightarrow> Some ([t], Between) | None \<Rightarrow> None))"

definition emit_then :: "jtoken \<Rightarrow> char \<Rightarrow> (jtoken list \<times> lex_state) option" where
  "emit_then t c = (case lex_between c of None \<Rightarrow> None | Some (ts, st) \<Rightarrow> Some (t # ts, st))"

definition lex_step :: "lex_state \<Rightarrow> char \<Rightarrow> (jtoken list \<times> lex_state) option" where
  "lex_step st c =
     (case st of
        Between \<Rightarrow> lex_between c
      | InString s \<Rightarrow>
          if c = CHR 0x22 then Some ([TString (rev s)], Between)
          else if c = CHR 0x5C then None
          else Some ([], InString (c # s))
      | InNumber n \<Rightarrow>
          (case digit_of c of
             Some d \<Rightarrow> Some ([], InNumber (10 * n + d))
           | None \<Rightarrow> emit_then (TNumber n) c)
      | InWord w \<Rightarrow>
          if is_lower c then Some ([], InWord (c # w)) else emit_then (TWord (rev w)) c)"

definition lex_end :: "lex_state \<Rightarrow> jtoken list option" where
  "lex_end st =
     (case st of
        Between \<Rightarrow> Some []
      | InString s \<Rightarrow> None
      | InNumber n \<Rightarrow> Some [TNumber n]
      | InWord w \<Rightarrow> Some [TWord (rev w)])"

fun json_lex :: "lex_state \<Rightarrow> string \<Rightarrow> jtoken list option" where
  "json_lex st [] = lex_end st"
| "json_lex st (c # cs) =
     (case lex_step st c of
        None \<Rightarrow> None
      | Some (ts, st') \<Rightarrow> map_option (\<lambda>r. ts @ r) (json_lex st' cs))"

datatype expect =
    KeyOrClose | Key | Colon string | Member string | ValueOrClose | Element | CommaOrClose

datatype frame = InArray "json list" expect | InObject "(string \<times> json) list" expect

definition deliver :: "json \<Rightarrow> frame list \<Rightarrow> (frame list \<times> json option) option" where
  "deliver v stack =
     (case stack of
        [] \<Rightarrow> Some ([], Some v)
      | InArray xs e # rest \<Rightarrow>
          if e = ValueOrClose \<or> e = Element then Some (InArray (xs @ [v]) CommaOrClose # rest, None)
          else None
      | InObject kvs e # rest \<Rightarrow>
          (case e of
             Member k \<Rightarrow> Some (InObject (kvs @ [(k, v)]) CommaOrClose # rest, None)
           | _ \<Rightarrow> None))"

definition wants_value :: "frame list \<Rightarrow> bool" where
  "wants_value stack =
     (case stack of
        [] \<Rightarrow> True
      | InArray xs e # rest \<Rightarrow> e = ValueOrClose \<or> e = Element
      | InObject kvs e # rest \<Rightarrow> (case e of Member k \<Rightarrow> True | _ \<Rightarrow> False))"

definition word_value :: "string \<Rightarrow> json option" where
  "word_value w =
     (if w = ''true'' then Some (JBool True)
      else if w = ''false'' then Some (JBool False)
      else if w = ''null'' then Some JNull
      else None)"

definition parse_step :: "frame list \<Rightarrow> jtoken \<Rightarrow> (frame list \<times> json option) option" where
  "parse_step stack t =
     (case t of
        TLBrace \<Rightarrow> if wants_value stack then Some (InObject [] KeyOrClose # stack, None) else None
      | TLBracket \<Rightarrow> if wants_value stack then Some (InArray [] ValueOrClose # stack, None) else None
      | TRBrace \<Rightarrow>
          (case stack of
             InObject kvs e # rest \<Rightarrow>
               if e = KeyOrClose \<or> e = CommaOrClose then deliver (JObject kvs) rest else None
           | _ \<Rightarrow> None)
      | TRBracket \<Rightarrow>
          (case stack of
             InArray xs e # rest \<Rightarrow>
               if e = ValueOrClose \<or> e = CommaOrClose then deliver (JArray xs) rest else None
           | _ \<Rightarrow> None)
      | TColon \<Rightarrow>
          (case stack of
             InObject kvs (Colon k) # rest \<Rightarrow> Some (InObject kvs (Member k) # rest, None)
           | _ \<Rightarrow> None)
      | TComma \<Rightarrow>
          (case stack of
             InObject kvs CommaOrClose # rest \<Rightarrow> Some (InObject kvs Key # rest, None)
           | InArray xs CommaOrClose # rest \<Rightarrow> Some (InArray xs Element # rest, None)
           | _ \<Rightarrow> None)
      | TString s \<Rightarrow>
          (case stack of
             InObject kvs KeyOrClose # rest \<Rightarrow> Some (InObject kvs (Colon s) # rest, None)
           | InObject kvs Key # rest \<Rightarrow> Some (InObject kvs (Colon s) # rest, None)
           | _ \<Rightarrow> deliver (JString s) stack)
      | TNumber n \<Rightarrow> deliver (JNumber n) stack
      | TWord w \<Rightarrow> (case word_value w of None \<Rightarrow> None | Some v \<Rightarrow> deliver v stack))"

fun parse_tokens :: "frame list \<Rightarrow> jtoken list \<Rightarrow> json option" where
  "parse_tokens stack [] = None"
| "parse_tokens stack (t # ts) =
     (case parse_step stack t of
        None \<Rightarrow> None
      | Some (stack', Some v) \<Rightarrow> (case ts of [] \<Rightarrow> Some v | _ \<Rightarrow> None)
      | Some (stack', None) \<Rightarrow> parse_tokens stack' ts)"

definition json_loads :: "string \<Rightarrow> json option" where
  "json_loads s = (case json_lex Between s of None \<Rightarrow> None | Some ts \<Rightarrow> parse_tokens [] ts)"

definition field :: "string \<Rightarrow> json \<Rightarrow> json option" where
  "field k v = (case v of JObject kvs \<Rightarrow> map_of kvs k | _ \<Rightarrow> None)"

text \<open>The body of the test request: the word after \<^verbatim>\<open>-d\<close> of the \<^verbatim>\<open>curl\<close> command, read as JSON.\<close>

definition request_body :: "json option" where
  "request_body =
     (case option_arg ''-d'' request_command of None \<Rightarrow> None | Some d \<Rightarrow> json_loads d)"

section \<open>The steps of the notebook\<close>

text \<open>
  The steps are recognised by the program a command runs; the dataset fetch is the Python
  cell that calls \<^verbatim>\<open>load_dataset\<close>. A step is \<open>Executed\<close> when it stands in a code cell,
  which the kernel runs, and \<open>Shown\<close> when it stands in a fenced shell block of a markdown
  cell, which the kernel never runs: the reader types it into a terminal. The fenced Python
  example (how the test set was built) is neither: it is not a shell block.
\<close>

datatype step =
  Install | DatasetFetch | TrainingJob | ModelUpload | ServerStart | TestRequest | BenchmarkRun

datatype origin = Executed | Shown

definition step_of :: "string list \<Rightarrow> step option" where
  "step_of ws =
     (let p = program ws in
      if take 2 p = [''pip'', ''install''] then Some Install
      else if take 1 p = [''torchrun''] then Some TrainingJob
      else if take 3 p = [''python'', ''-m'', ''medusa.hf_utils''] then Some ModelUpload
      else if take 2 p = [''docker'', ''run''] then Some ServerStart
      else if take 1 p = [''curl''] then Some TestRequest
      else if take 1 p = [''guidellm''] then Some BenchmarkRun
      else None)"

definition statement_step :: "statement \<Rightarrow> step option" where
  "statement_step st =
     (case st of
        PythonCode ls \<Rightarrow> if list_ex (contains ''load_dataset('') ls then Some DatasetFetch else None
      | _ \<Rightarrow> (case statement_words st of None \<Rightarrow> None | Some ws \<Rightarrow> step_of ws))"

definition block_steps :: "md_block \<Rightarrow> (step \<times> origin) list" where
  "block_steps b =
     (case b of
        Fence lang ls \<Rightarrow>
          if lang = ''bash'' \<or> lang = ''Bash'' then
            (case fence_words ls of
               None \<Rightarrow> []
             | Some ws \<Rightarrow> (case step_of ws of None \<Rightarrow> [] | Some s \<Rightarrow> [(s, Shown)]))
          else []
      | _ \<Rightarrow> [])"

definition cell_steps :: "cell \<Rightarrow> (step \<times> origin) list" where
  "cell_steps c =
     (case c of
        Markdown bs \<Rightarrow> concat (map block_steps bs)
      | Code ls \<Rightarrow>
          (case cell_statement ls of
             None \<Rightarrow> []
           | Some st \<Rightarrow> (case statement_step st of None \<Rightarrow> [] | Some s \<Rightarrow> [(s, Executed)])))"

fun positions :: "nat \<Rightarrow> ('a \<Rightarrow> bool) \<Rightarrow> 'a list \<Rightarrow> nat list" where
  "positions i P [] = []"
| "positions i P (x # xs) =
     (if P x then i # positions (Suc i) P xs else positions (Suc i) P xs)"

definition has_step :: "step \<Rightarrow> (step \<times> origin) list \<Rightarrow> bool" where
  "has_step s ss = (s \<in> fst ` set ss)"

definition cells_with :: "step \<Rightarrow> nat list" where
  "cells_with s = positions 0 (has_step s) (map cell_steps notebook)"

definition steps_between :: "nat \<Rightarrow> nat \<Rightarrow> (step \<times> origin) list" where
  "steps_between a b = concat (take (b - Suc a) (drop (Suc a) (map cell_steps notebook)))"

section \<open>Running the notebook\<close>

text \<open>
  The kernel executes the code cells from top to bottom, one at a time: a cell is started
  when the one before it has finished, and markdown cells are skipped. A run stops at the
  first cell that raises. What raises depends on the kind of statement:
  \<^item> Python code raises when the call it makes fails;
  \<^item> a \<^verbatim>\<open>%%bash\<close> cell raises \<^verbatim>\<open>CalledProcessError\<close> when the script exits with a non-zero
    status;
  \<^item> a shell escape \<^verbatim>\<open>!command\<close> and \<^verbatim>\<open>%pip\<close> print the command's output and return: a
    non-zero exit status raises nothing.
  The outcome of the external call made by cell \<open>i\<close> is given by the world, \<open>world i\<close>.
\<close>

datatype outcome = Success | Failure

datatype event = Started nat | Finished nat outcome

definition raises :: "statement \<Rightarrow> outcome \<Rightarrow> bool" where
  "raises st r =
     (r = Failure \<and>
      (case st of
         PythonCode ls \<Rightarrow> True
       | BashCell s \<Rightarrow> True
       | ShellEscape s \<Rightarrow> False
       | LineMagic s \<Rightarrow> False))"

fun run_cells :: "(nat \<Rightarrow> outcome) \<Rightarrow> nat \<Rightarrow> cell list \<Rightarrow> event list" where
  "run_cells world i [] = []"
| "run_cells world i (Markdown bs # cs) = run_cells world (Suc i) cs"
| "run_cells world i (Code ls # cs) =
     (case cell_statement ls of
        None \<Rightarrow> run_cells world (Suc i) cs
      | Some st \<Rightarrow>
          Started i # Finished i (world i) #
          (if raises st (world i) then [] else run_cells world (Suc i) cs))"

fun code_cells :: "cell list \<Rightarrow> string list list" where
  "code_cells [] = []"
| "code_cells (Markdown bs # cs) = code_cells cs"
| "code_cells (Code ls # cs) = ls # code_cells cs"

definition run_all :: "(nat \<Rightarrow> outcome) \<Rightarrow> event list" where
  "run_all world = run_cells world 0 notebook"

fun started :: "event list \<Rightarrow> nat list" where
  "started [] = []"
| "started (Started i # evs) = i # started evs"
| "started (Finished i r # evs) = started evs"

fun one_at_a_time :: "event list \<Rightarrow> bool" where
  "one_at_a_time [] = True"
| "one_at_a_time [e] = False"
| "one_at_a_time (e # f # evs) =
     (case e of
        Started i \<Rightarrow> (case f of Finished j r \<Rightarrow> i = j \<and> one_at_a_time evs | _ \<Rightarrow> False)
      | _ \<Rightarrow> False)"

definition all_succeed :: "nat \<Rightarrow> outcome" where
  "all_succeed i = Success"

definition training_fails :: "nat \<Rightarrow> outcome" where
  "training_fails i = (if i = 5 then Failure else Success)"

section \<open>The dataset cell\<close>

text \<open>
  \<^verbatim>\<open>
  dataset = load_dataset("philschmid/text-to-sql-dataset-medusa")
  with open("train_dataset.json", "w") as f:
      json.dump(list(dataset["train"]["messages"]), f)
  \<close>
  \<^verbatim>\<open>load_dataset\<close> is the library call: given the name of a dataset on the hub it returns
  the splits of the dataset, each with its columns, or raises. It is a parameter of the
  model. A subscript with a missing key raises \<^verbatim>\<open>KeyError\<close>. The files are the files this
  code writes, each with the JSON documents written to it: \<^verbatim>\<open>open(path, "w")\<close> creates the
  file or empties it, \<^verbatim>\<open>json.dump\<close> writes one document. The file is opened before the
  argument of \<^verbatim>\<open>json.dump\<close> is evaluated, so a \<^verbatim>\<open>KeyError\<close> leaves it empty. The result is
  the files after the cell and the exception it raised, if any.
\<close>

datatype py_error = HubError | KeyError string

type_synonym dataset = "string \<rightharpoonup> json list"

type_synonym dataset_dict = "string \<rightharpoonup> dataset"

type_synonym files = "string \<rightharpoonup> json list"

definition getitem :: "(string \<rightharpoonup> 'a) \<Rightarrow> string \<Rightarrow> py_error + 'a" where
  "getitem m k = (case m k of None \<Rightarrow> Inl (KeyError k) | Some v \<Rightarrow> Inr v)"

definition open_w :: "string \<Rightarrow> files \<Rightarrow> files" where
  "open_w path fs = fs(path \<mapsto> [])"

definition json_dump :: "json \<Rightarrow> string \<Rightarrow> files \<Rightarrow> files" where
  "json_dump obj path fs =
     fs(path \<mapsto> (case fs path of None \<Rightarrow> [] | Some docs \<Rightarrow> docs) @ [obj])"

definition run_fetch_cell ::
  "(string \<Rightarrow> py_error + dataset_dict) \<Rightarrow> files \<Rightarrow> files \<times> py_error option" where
  "run_fetch_cell load_dataset fs =
     (case load_dataset ''philschmid/text-to-sql-dataset-medusa'' of
        Inl e \<Rightarrow> (fs, Some e)
      | Inr dataset \<Rightarrow>
          (let fs1 = open_w ''train_dataset.json'' fs in
           case getitem dataset ''train'' of
             Inl e \<Rightarrow> (fs1, Some e)
           | Inr train \<Rightarrow>
               (case getitem train ''messages'' of
                  Inl e \<Rightarrow> (fs1, Some e)
                | Inr messages \<Rightarrow>
                    (json_dump (JArray messages) ''train_dataset.json'' fs1, None))))"

text \<open>Two datasets that have the same training messages and differ everywhere else.\<close>

definition example_messages :: "json list" where
  "example_messages =
     [JArray [JObject [(''content'', JString ''How many heads?''), (''role'', JString ''user'')],
              JObject [(''content'', JString ''SELECT COUNT(*) FROM head''),
                       (''role'', JString ''assistant'')]]]"

definition example_train :: dataset where
  "example_train = [''messages'' \<mapsto> example_messages]"

definition example_dataset :: dataset_dict where
  "example_dataset =
     [''train'' \<mapsto> example_train, ''test'' \<mapsto> [''messages'' \<mapsto> [JArray []]]]"

definition other_train :: dataset where
  "other_train = [''messages'' \<mapsto> example_messages, ''text'' \<mapsto> [JString ''prompt'']]"

definition other_dataset :: dataset_dict where
  "other_dataset =
     [''train'' \<mapsto> other_train,
      ''test'' \<mapsto> [''messages'' \<mapsto> [JArray [JNull]], ''text'' \<mapsto> [JString ''unseen'']]]"

definition example_hub :: "string \<Rightarrow> py_error + dataset_dict" where
  "example_hub name =
     (if name = ''philschmid/text-to-sql-dataset-medusa'' then Inr example_dataset
      else Inl HubError)"

definition other_hub :: "string \<Rightarrow> py_error + dataset_dict" where
  "other_hub name =
     (if name = ''philschmid/text-to-sql-dataset-medusa'' then Inr other_dataset
      else Inl HubError)"

text \<open>
  Three hubs on which the cell fails: the dataset does not load (while every other name
  would), it loads without a train split, it loads with a train split that has no messages
  column.
\<close>

definition failing_hub :: "string \<Rightarrow> py_error + dataset_dict" where
  "failing_hub name =
     (if name = ''philschmid/text-to-sql-dataset-medusa'' then Inl HubError
      else Inr example_dataset)"

definition test_only_dataset :: dataset_dict where
  "test_only_dataset = [''test'' \<mapsto> example_train]"

definition test_only_hub :: "string \<Rightarrow> py_error + dataset_dict" where
  "test_only_hub name = Inr test_only_dataset"

definition text_only_train :: dataset where
  "text_only_train = [''text'' \<mapsto> [JString ''prompt'']]"

definition text_only_dataset :: dataset_dict where
  "text_only_dataset = [''train'' \<mapsto> text_only_train]"

definition text_only_hub :: "string \<Rightarrow> py_error + dataset_dict" where
  "text_only_hub name = Inr text_only_dataset"

section \<open>Acceleration\<close>

text \<open>
  The narrative of the benchmark cell:
  \<^verbatim>\<open>Acceleration = (Total Tokens (Generated + Skipped)) / (Number of Loops/Iterations)\<close>
  and \<^verbatim>\<open>acceleration = (17687 + 27101) / 27101 = 1.65\<close>. The ratio is an exact rational,
  and there is none for zero iterations; \<open>round2\<close> rounds to two decimal places.
\<close>

definition acceleration :: "nat \<Rightarrow> nat \<Rightarrow> nat \<Rightarrow> rat option" where
  "acceleration generated skipped loops =
     (if loops = 0 then None else Some ((of_nat generated + of_nat skipped) / of_nat loops))"

definition round2 :: "rat \<Rightarrow> rat" where
  "round2 x = of_int (round (x * 100)) / 100"

section \<open>The commands, evaluated\<close>

text \<open>
  Each command of the notebook is a simple command; these are the words its program
  receives, computed from the source lines by \<open>cell_statement\<close> and \<open>sh_lex\<close>.
\<close>

lemma install_command_words:
  "install_command =
   [''pip'', ''install'', ''torch==2.4.0'', ''tensorboard'', ''transformers==4.44.2'',
    ''datasets==2.21.0'', ''accelerate==0.33.0'', ''deepspeed==0.14.5'']"
  by code_simp

lemma train_command_words:
  "train_command =
   [''torchrun'', ''--nproc_per_node=4'', ''Medusa/medusa/train/train_legacy.py'',
    ''--model_name_or_path'', ''philschmid/code-llama-3-1-8b-text-to-sql'',
    ''--data_path'', ''train_dataset.json'',
    ''--bf16'', ''True'',
    ''--output_dir'', ''code_llama31'',
    ''--num_train_epochs'', ''5'',
    ''--per_device_train_batch_size'', ''1'',
    ''--gradient_accumulation_steps'', ''4'',
    ''--eval_strategy'', ''no'',
    ''--save_strategy'', ''epoch'',
    ''--learning_rate'', ''5e-4'',
    ''--lr_scheduler_type'', ''cosine'',
    ''--warmup_steps'', ''40'',
    ''--logging_steps'', ''10'',
    ''--tf32'', ''True'',
    ''--model_max_length'', ''2048'',
    ''--lazy_preprocess'', ''False'',
    ''--medusa_num_heads'', ''3'',
    ''--medusa_num_layers'', ''1'',
    ''--deepspeed'', ''./Medusa/deepspeed.json'']"
  by code_simp

lemma upload_command_words:
  "upload_command =
   [''python'', ''-m'', ''medusa.hf_utils'',
    ''--folder'', ''code_llama31_medusa'',
    ''--repo'', ''philschmid/code-llama-3-1-8b-text-to-sql-medusa'']"
  by code_simp

lemma request_command_words:
  \<open>request_command =
   [''curl'', ''localhost:8080/v1/chat/completions'', ''-X'', ''POST'',
    ''-d'',
    unlines
     [''{'',
      ''  "model": "tgi",'',
      ''  "messages": ['',
      ''    {'',
      ''      "role": "user",'',
      ''      "content": "Write a poem for my three year old"'',
      ''    }'',
      ''  ],'',
      ''  "stream": false,'',
      ''  "max_tokens": 250'',
      ''}''],
    ''-H'', ''Content-Type: application/json'']\<close>
  by code_simp

lemma guidellm_install_command_words:
  "guidellm_install_command = [''pip'', ''install'', ''guidellm'']"
  by code_simp

lemma server_command_words:
  "server_command =
   [''CUDA_VISIBLE_DEVICES=0'', ''docker'', ''run'', ''--gpus'', ''all'', ''-ti'',
    ''--shm-size'', ''1g'', ''--ipc=host'', ''--rm'', ''-p'', ''8080:80'',
    ''-e'', ''MODEL_ID=philschmid/code-llama-3-1-8b-text-to-sql-medusa'',
    ''-e'', ''NUM_SHARD=1'',
    ''-e'', ''MAX_INPUT_TOKENS=4096'',
    ''-e'', ''MAX_TOTAL_TOKENS=6000'',
    ''ghcr.io/huggingface/text-generation-inference:sha-b70ae09'']"
  by code_simp

lemma baseline_server_command_words:
  "baseline_server_command =
   [''CUDA_VISIBLE_DEVICES=0'', ''docker'', ''run'', ''--gpus'', ''all'', ''-ti'',
    ''--shm-size'', ''1g'', ''--ipc=host'', ''--rm'', ''-p'', ''8080:80'',
    ''-e'', ''MODEL_ID=philschmid/code-llama-3-1-8b-text-to-sql'',
    ''-e'', ''NUM_SHARD=1'',
    ''-e'', ''MAX_INPUT_TOKENS=4096'',
    ''-e'', ''MAX_TOTAL_TOKENS=6000'',
    ''ghcr.io/huggingface/text-generation-inference:sha-b70ae09'']"
  by code_simp

lemma benchmark_command_words:
  "benchmark_command =
   [''guidellm'',
    ''--target'', ''http://localhost:8080/v1'',
    ''--model'', ''philschmid/code-llama-3-1-8b-text-to-sql-medusa'',
    ''--data'', ''philschmid/text-to-sql-dataset-medusa-test-chatml'',
    ''--data-type'', ''transformers'',
    ''--max-seconds'', ''60'',
    ''--output-path'', ''benchmark_medusa.json'']"
  by code_simp

text \<open>The body of the test request, parsed.\<close>

lemma request_body_value:
  "request_body =
   Some (JObject
     [(''model'', JString ''tgi''),
      (''messages'',
       JArray [JObject [(''role'', JString ''user''),
                        (''content'', JString ''Write a poem for my three year old'')]]),
      (''stream'', JBool False),
      (''max_tokens'', JNumber 250)])"
  by code_simp

text \<open>The steps of every cell, in the order of the notebook (cells are numbered from 0).\<close>

lemma notebook_outline:
  "map cell_steps notebook =
   [[], [(Install, Executed)], [], [(DatasetFetch, Executed)], [], [(TrainingJob, Executed)], [],
    [(ModelUpload, Executed)], [(ServerStart, Shown)], [], [(TestRequest, Executed)], [],
    [(Install, Executed)], [(BenchmarkRun, Shown), (ServerStart, Shown)], [], []]"
  by code_simp

lemma cells_with_values:
  "cells_with Install = [1, 12]"
  "cells_with DatasetFetch = [3]"
  "cells_with TrainingJob = [5]"
  "cells_with ModelUpload = [7]"
  "cells_with ServerStart = [8, 13]"
  "cells_with TestRequest = [10]"
  "cells_with BenchmarkRun = [13]"
  by (simp_all add: cells_with_def notebook_outline has_step_def)

section \<open>Runs of the notebook\<close>

text \<open>In every run, of any list of cells, a cell is started only after the previous one finished.\<close>

lemma one_at_a_time_run_cells: "one_at_a_time (run_cells world i cs)"
proof (induction cs arbitrary: i)
  case Nil
  show ?case by simp
next
  case (Cons c cs)
  show ?case
  proof (cases c)
    case (Markdown bs)
    with Cons show ?thesis by simp
  next
    case (Code ls)
    with Cons show ?thesis by (simp split: option.split)
  qed
qed

text \<open>The kind of statement in each code cell.\<close>

lemma install_statement: "\<exists>s. cell_statement install_cell = Some (LineMagic s)"
  by (simp add: cell_statement_def install_cell_def is_comment_def is_blank_def)

lemma fetch_statement:
  \<open>cell_statement fetch_cell =
   Some (PythonCode
     [''from datasets import load_dataset'',
      ''import json'',
      ''dataset = load_dataset("philschmid/text-to-sql-dataset-medusa")'',
      ''with open("train_dataset.json", "w") as f:'',
      ''    json.dump(list(dataset["train"]["messages"]), f)''])\<close>
  by (simp add: cell_statement_def fetch_cell_def is_comment_def is_blank_def)

lemma train_statement: "\<exists>s. cell_statement train_cell = Some (ShellEscape s)"
  by (simp add: cell_statement_def train_cell_def is_comment_def is_blank_def cont_def)

lemma upload_statement: "\<exists>s. cell_statement upload_cell = Some (ShellEscape s)"
  by (simp add: cell_statement_def upload_cell_def is_comment_def is_blank_def cont_def)

lemma request_statement: "\<exists>s. cell_statement request_cell = Some (BashCell s)"
  by (simp add: cell_statement_def request_cell_def)

lemma guidellm_install_statement: "\<exists>s. cell_statement guidellm_install_cell = Some (ShellEscape s)"
  by (simp add: cell_statement_def guidellm_install_cell_def is_comment_def is_blank_def)

lemma empty_statement: "cell_statement [] = None"
  by (simp add: cell_statement_def)

text \<open>
  The cells a run starts, for every world: only a failure of cell 3 (Python) or of cell 10
  (\<^verbatim>\<open>%%bash\<close>) stops the run.
\<close>

lemma started_run_all:
  "started (run_all world) =
     (if world 3 = Failure then [1, 3]
      else if world 10 = Failure then [1, 3, 5, 7, 10]
      else [1, 3, 5, 7, 10, 12])"
proof -
  obtain s1 where s1: "cell_statement install_cell = Some (LineMagic s1)"
    using install_statement by blast
  note s3 = fetch_statement
  obtain s5 where s5: "cell_statement train_cell = Some (ShellEscape s5)"
    using train_statement by blast
  obtain s7 where s7: "cell_statement upload_cell = Some (ShellEscape s7)"
    using upload_statement by blast
  obtain s10 where s10: "cell_statement request_cell = Some (BashCell s10)"
    using request_statement by blast
  obtain s12 where s12: "cell_statement guidellm_install_cell = Some (ShellEscape s12)"
    using guidellm_install_statement by blast
  show ?thesis
    by (simp add: run_all_def notebook_def s1 s3 s5 s7 s10 s12 empty_statement raises_def
        eval_nat_numeral)
qed

section \<open>The claims\<close>

text \<open>
  Claim C1. With the counts of the narrative, 17687 generated tokens, 27101 skipped tokens
  and 27101 iterations, the acceleration is the rational (17687 + 27101) / 27101. Rounded
  to two decimal places it is 1.65; it lies between 1.645 and 1.655, so every rounding rule
  gives that figure.
\<close>

theorem narrated_acceleration:
  "acceleration 17687 27101 27101 = Some ((17687 + 27101) / 27101)
   \<and> map_option round2 (acceleration 17687 27101 27101) = Some (165 / 100)
   \<and> 1645 / 1000 \<le> the (acceleration 17687 27101 27101)
   \<and> the (acceleration 17687 27101 27101) < 1655 / 1000"
proof -
  have a: "acceleration 17687 27101 27101 = Some (44788 / 27101)"
    by (simp add: acceleration_def)
  have "round ((44788 / 27101 :: rat) * 100) = 165"
    by (rule round_unique) simp_all
  then show ?thesis
    by (simp add: a round2_def)
qed

text \<open>
  Claim C2. When the dataset loads and has a train split with a messages column, the
  dataset cell leaves exactly one JSON document in \<^verbatim>\<open>train_dataset.json\<close>, the list of
  the messages of the train split, and raises nothing; and \<^verbatim>\<open>train_dataset.json\<close> is the
  word that follows \<^verbatim>\<open>--data_path\<close> in the training command.
\<close>

theorem train_file_handed_to_training:
  assumes "load_dataset ''philschmid/text-to-sql-dataset-medusa'' = Inr dataset"
      and "dataset ''train'' = Some train"
      and "train ''messages'' = Some messages"
  shows "run_fetch_cell load_dataset fs = (fs(''train_dataset.json'' \<mapsto> [JArray messages]), None)
         \<and> option_arg ''--data_path'' train_command = Some ''train_dataset.json''"
  using assms
  by (simp add: run_fetch_cell_def getitem_def open_w_def json_dump_def train_command_words)

text \<open>The hypotheses of C2 hold for the example dataset, and so does its conclusion.\<close>

theorem train_file_handed_to_training_witness:
  "example_hub ''philschmid/text-to-sql-dataset-medusa'' = Inr example_dataset
   \<and> example_dataset ''train'' = Some example_train
   \<and> example_train ''messages'' = Some example_messages
   \<and> run_fetch_cell example_hub Map.empty =
         ([''train_dataset.json'' \<mapsto> [JArray example_messages]], None)
   \<and> option_arg ''--data_path'' train_command = Some ''train_dataset.json''"
proof -
  have h: "example_hub ''philschmid/text-to-sql-dataset-medusa'' = Inr example_dataset"
    by (simp add: example_hub_def)
  have t: "example_dataset ''train'' = Some example_train"
    by (simp add: example_dataset_def)
  have m: "example_train ''messages'' = Some example_messages"
    by (simp add: example_train_def)
  show ?thesis
    using h t m
      train_file_handed_to_training
        [of example_hub example_dataset example_train example_messages Map.empty]
    by simp
qed

text \<open>
  Claim C3, as stated: the directory after \<^verbatim>\<open>--output_dir\<close> of the training command and
  the directory after \<^verbatim>\<open>--folder\<close> of the upload command are the same. They are not:
  the first is \<^verbatim>\<open>code_llama31\<close>, the second \<^verbatim>\<open>code_llama31_medusa\<close>.
\<close>

theorem output_dir_is_not_upload_folder:
  "option_arg ''--output_dir'' train_command \<noteq> option_arg ''--folder'' upload_command"
  by (simp add: train_command_words upload_command_words)

text \<open>
  Claim C3, amended. The folder handed to the upload utility is the output directory of
  the training command with \<^verbatim>\<open>_medusa\<close> appended.
\<close>

theorem upload_folder_is_output_dir_medusa:
  "option_arg ''--output_dir'' train_command = Some ''code_llama31''
   \<and> option_arg ''--folder'' upload_command = Some (''code_llama31'' @ ''_medusa'')"
  by (simp add: train_command_words upload_command_words)

text \<open>
  Claim C4. The word after \<^verbatim>\<open>--repo\<close> of the upload command, the identifier under which
  the checkpoint is pushed, is the value of \<^verbatim>\<open>MODEL_ID\<close> in the environment that the
  server command gives the container. The space that ends the \<^verbatim>\<open>--repo\<close> line in the
  source is not part of the word.
\<close>

theorem upload_repo_is_server_model_id:
  "option_arg ''--repo'' upload_command = Some ''philschmid/code-llama-3-1-8b-text-to-sql-medusa''
   \<and> map_of (container_env server_command) ''MODEL_ID'' = option_arg ''--repo'' upload_command"
  by (simp add: upload_command_words server_command_words container_env_def assignment_def)

text \<open>
  Claim C5. The first server start is in cell 8 and the benchmark run in cell 13. The
  cells between them hold two steps, the test request of cell 10 and the install of
  cell 12, both in code cells; the notebook has no other test request. A run in which
  every call succeeds starts cells 10 and 12 between the two, cell 10 exactly once, and no
  run starts it twice. The command of cell 10 is one \<^verbatim>\<open>curl\<close> command with exactly these
  words: one URL, \<^verbatim>\<open>localhost:8080/v1/chat/completions\<close>, the method \<^verbatim>\<open>POST\<close>, one body and
  one header, and no option that repeats the request. The body is a JSON object whose
  \<^verbatim>\<open>messages\<close> is a list of one message, of role \<^verbatim>\<open>user\<close>, whose \<^verbatim>\<open>stream\<close> is \<^verbatim>\<open>false\<close>
  and whose \<^verbatim>\<open>max_tokens\<close> is 250.
\<close>

theorem one_test_request:
  \<open>cells_with ServerStart = [8, 13]
   \<and> cells_with BenchmarkRun = [13]
   \<and> cells_with TestRequest = [10]
   \<and> steps_between 8 13 = [(TestRequest, Executed), (Install, Executed)]
   \<and> filter (\<lambda>x. fst x = TestRequest) (steps_between 8 13) = [(TestRequest, Executed)]
   \<and> filter (\<lambda>i. 8 < i \<and> i < 13) (started (run_all all_succeed)) = [10, 12]
   \<and> count_list (started (run_all all_succeed)) 10 = 1
   \<and> count_list (started (run_all world)) 10 \<le> 1
   \<and> request_command =
       [''curl'', ''localhost:8080/v1/chat/completions'', ''-X'', ''POST'',
        ''-d'',
        unlines
         [''{'',
          ''  "model": "tgi",'',
          ''  "messages": ['',
          ''    {'',
          ''      "role": "user",'',
          ''      "content": "Write a poem for my three year old"'',
          ''    }'',
          ''  ],'',
          ''  "stream": false,'',
          ''  "max_tokens": 250'',
          ''}''],
        ''-H'', ''Content-Type: application/json'']
   \<and> take 2 request_command = [''curl'', ''localhost:8080/v1/chat/completions'']
   \<and> option_arg ''-X'' request_command = Some ''POST''
   \<and> request_body =
       Some (JObject
         [(''model'', JString ''tgi''),
          (''messages'',
           JArray [JObject [(''role'', JString ''user''),
                            (''content'', JString ''Write a poem for my three year old'')]]),
          (''stream'', JBool False),
          (''max_tokens'', JNumber 250)])\<close>
proof -
  have r: "started (run_all all_succeed) = [1, 3, 5, 7, 10, 12]"
    by (simp add: started_run_all all_succeed_def)
  have "cells_with ServerStart = [8, 13]"
    and "cells_with BenchmarkRun = [13]"
    and "cells_with TestRequest = [10]"
    by (simp_all add: cells_with_values)
  moreover have "steps_between 8 13 = [(TestRequest, Executed), (Install, Executed)]"
    and "filter (\<lambda>x. fst x = TestRequest) (steps_between 8 13) = [(TestRequest, Executed)]"
    by (simp_all add: steps_between_def notebook_outline)
  moreover have "filter (\<lambda>i. 8 < i \<and> i < 13) (started (run_all all_succeed)) = [10, 12]"
    and "count_list (started (run_all all_succeed)) 10 = 1"
    by (simp_all add: r)
  moreover have "count_list (started (run_all world)) 10 \<le> 1"
    by (simp add: started_run_all)
  moreover note request_command_words
  moreover have "take 2 request_command = [''curl'', ''localhost:8080/v1/chat/completions'']"
    and "option_arg ''-X'' request_command = Some ''POST''"
    by (simp_all add: request_command_words)
  moreover note request_body_value
  ultimately show ?thesis
    by (intro conjI)
qed

text \<open>
  Claim C6, as stated: the five steps are commands that the notebook issues one after the
  other, each started when the previous one has completed. A run in which every call
  succeeds starts none of the cells that hold the server start or the benchmark run: both
  commands are fenced blocks of markdown cells.
\<close>

theorem server_and_benchmark_not_run:
  "set (started (run_all all_succeed)) \<inter> set (cells_with ServerStart) = {}
   \<and> set (started (run_all all_succeed)) \<inter> set (cells_with BenchmarkRun) = {}"
  by (simp add: started_run_all cells_with_values all_succeed_def)

text \<open>
  Claim C6, amended. The five steps stand in the notebook in the order dataset fetch
  (cell 3), training job (cell 5), model upload (cell 7), server start (cell 8), benchmark
  run (cell 13), each as one command. The first three are code cells; the server start and
  the benchmark run are shown in markdown cells and are never issued by a run. In every
  run the kernel executes one cell at a time, a cell being started only when the one
  before it has finished, and the cells started are an initial part of the code cells in
  their order; when every call succeeds all of them are started.
\<close>

theorem steps_in_order:
  "map cell_steps notebook =
     [[], [(Install, Executed)], [], [(DatasetFetch, Executed)], [], [(TrainingJob, Executed)], [],
      [(ModelUpload, Executed)], [(ServerStart, Shown)], [], [(TestRequest, Executed)], [],
      [(Install, Executed)], [(BenchmarkRun, Shown), (ServerStart, Shown)], [], []]
   \<and> one_at_a_time (run_all world)
   \<and> (\<exists>k. started (run_all world) = take k [1, 3, 5, 7, 10, 12])
   \<and> started (run_all all_succeed) = [1, 3, 5, 7, 10, 12]"
proof -
  have "started (run_all world) = take 2 [1, 3, 5, 7, 10, 12]
      \<or> started (run_all world) = take 5 [1, 3, 5, 7, 10, 12]
      \<or> started (run_all world) = take 6 [1, 3, 5, 7, 10, 12]"
    by (simp add: started_run_all)
  then have "\<exists>k. started (run_all world) = take k [1, 3, 5, 7, 10, 12]"
    by blast
  then show ?thesis
    by (simp add: notebook_outline run_all_def one_at_a_time_run_cells started_run_all [unfolded run_all_def]
        all_succeed_def)
qed

text \<open>
  Claim C7, as stated: when any step fails, no later step is executed. In the world where
  the training command (cell 5) fails and every other call succeeds, the upload (cell 7)
  and the cells after it are still started: a shell escape does not raise.
\<close>

theorem training_failure_does_not_abort:
  "training_fails 5 = Failure
   \<and> cells_with TrainingJob = [5]
   \<and> cells_with ModelUpload = [7]
   \<and> started (run_all training_fails) = [1, 3, 5, 7, 10, 12]"
  by (simp add: started_run_all cells_with_values training_fails_def)

text \<open>
  Claim C7, amended. The notebook has no retry, backoff, validation or recovery. Its code
  cells are the six below and an empty one. Five of them are one simple command each, with
  exactly the words given: no second command, no test of an exit status, no option that
  repeats a call. The dataset cell is the five Python lines given, with no loop, no
  handler and no check of what was written: when the dataset does not load, the error
  leaves the cell and no file is written; when the train split or its messages column is
  missing, the \<^verbatim>\<open>KeyError\<close> leaves the cell and the file stays empty. Whatever the outcomes
  of the calls, a run starts each code cell at most once, in the order of the notebook,
  and starts nothing else. The run stops early in two cases only, when the dataset cell
  (cell 3, Python) fails and when the test request (cell 10, \<^verbatim>\<open>%%bash\<close>) fails; the
  outcomes of the installs, of the training command and of the upload command change
  nothing.
\<close>

theorem run_stops_only_where_kernel_raises:
  \<open>started (run_all world) =
     (if world 3 = Failure then [1, 3]
      else if world 10 = Failure then [1, 3, 5, 7, 10]
      else [1, 3, 5, 7, 10, 12])
   \<and> code_cells notebook =
       [install_cell, fetch_cell, train_cell, upload_cell, request_cell,
        guidellm_install_cell, []]
   \<and> cells_with DatasetFetch = [3]
   \<and> cells_with TestRequest = [10]
   \<and> install_command =
       [''pip'', ''install'', ''torch==2.4.0'', ''tensorboard'', ''transformers==4.44.2'',
        ''datasets==2.21.0'', ''accelerate==0.33.0'', ''deepspeed==0.14.5'']
   \<and> cell_statement fetch_cell =
       Some (PythonCode
         [''from datasets import load_dataset'',
          ''import json'',
          ''dataset = load_dataset("philschmid/text-to-sql-dataset-medusa")'',
          ''with open("train_dataset.json", "w") as f:'',
          ''    json.dump(list(dataset["train"]["messages"]), f)''])
   \<and> train_command =
       [''torchrun'', ''--nproc_per_node=4'', ''Medusa/medusa/train/train_legacy.py'',
        ''--model_name_or_path'', ''philschmid/code-llama-3-1-8b-text-to-sql'',
        ''--data_path'', ''train_dataset.json'',
        ''--bf16'', ''True'',
        ''--output_dir'', ''code_llama31'',
        ''--num_train_epochs'', ''5'',
        ''--per_device_train_batch_size'', ''1'',
        ''--gradient_accumulation_steps'', ''4'',
        ''--eval_strategy'', ''no'',
        ''--save_strategy'', ''epoch'',
        ''--learning_rate'', ''5e-4'',
        ''--lr_scheduler_type'', ''cosine'',
        ''--warmup_steps'', ''40'',
        ''--logging_steps'', ''10'',
        ''--tf32'', ''True'',
        ''--model_max_length'', ''2048'',
        ''--lazy_preprocess'', ''False'',
        ''--medusa_num_heads'', ''3'',
        ''--medusa_num_layers'', ''1'',
        ''--deepspeed'', ''./Medusa/deepspeed.json'']
   \<and> upload_command =
       [''python'', ''-m'', ''medusa.hf_utils'',
        ''--folder'', ''code_llama31_medusa'',
        ''--repo'', ''philschmid/code-llama-3-1-8b-text-to-sql-medusa'']
   \<and> request_command =
       [''curl'', ''localhost:8080/v1/chat/completions'', ''-X'', ''POST'',
        ''-d'',
        unlines
         [''{'',
          ''  "model": "tgi",'',
          ''  "messages": ['',
          ''    {'',
          ''      "role": "user",'',
          ''      "content": "Write a poem for my three year old"'',
          ''    }'',
          ''  ],'',
          ''  "stream": false,'',
          ''  "max_tokens": 250'',
          ''}''],
        ''-H'', ''Content-Type: application/json'']
   \<and> guidellm_install_command = [''pip'', ''install'', ''guidellm'']
   \<and> (load_dataset ''philschmid/text-to-sql-dataset-medusa'' = Inl e \<longrightarrow>
        run_fetch_cell load_dataset fs = (fs, Some e))
   \<and> (load_dataset ''philschmid/text-to-sql-dataset-medusa'' = Inr dataset \<and>
        dataset ''train'' = None \<longrightarrow>
        run_fetch_cell load_dataset fs =
          (fs(''train_dataset.json'' \<mapsto> []), Some (KeyError ''train'')))
   \<and> (load_dataset ''philschmid/text-to-sql-dataset-medusa'' = Inr dataset \<and>
        dataset ''train'' = Some train \<and> train ''messages'' = None \<longrightarrow>
        run_fetch_cell load_dataset fs =
          (fs(''train_dataset.json'' \<mapsto> []), Some (KeyError ''messages'')))\<close>
proof -
  have f: "(load_dataset ''philschmid/text-to-sql-dataset-medusa'' = Inl e \<longrightarrow>
        run_fetch_cell load_dataset fs = (fs, Some e))
   \<and> (load_dataset ''philschmid/text-to-sql-dataset-medusa'' = Inr dataset \<and>
        dataset ''train'' = None \<longrightarrow>
        run_fetch_cell load_dataset fs =
          (fs(''train_dataset.json'' \<mapsto> []), Some (KeyError ''train'')))
   \<and> (load_dataset ''philschmid/text-to-sql-dataset-medusa'' = Inr dataset \<and>
        dataset ''train'' = Some train \<and> train ''messages'' = None \<longrightarrow>
        run_fetch_cell load_dataset fs =
          (fs(''train_dataset.json'' \<mapsto> []), Some (KeyError ''messages'')))"
    by (simp add: run_fetch_cell_def getitem_def open_w_def)
  have s: "started (run_all world) =
     (if world 3 = Failure then [1, 3]
      else if world 10 = Failure then [1, 3, 5, 7, 10]
      else [1, 3, 5, 7, 10, 12])"
    by (rule started_run_all)
  have c: "code_cells notebook =
       [install_cell, fetch_cell, train_cell, upload_cell, request_cell,
        guidellm_install_cell, []]"
    by (simp add: notebook_def)
  from f s c show ?thesis
    by (simp only: cells_with_values install_command_words fetch_statement train_command_words
        upload_command_words request_command_words guidellm_install_command_words simp_thms)
qed

text \<open>
  The three failures of the dataset cell, each on a hub that meets the hypothesis: no
  second attempt, no other dataset, the error as it was raised.
\<close>

theorem run_stops_only_where_kernel_raises_witness:
  "failing_hub ''philschmid/text-to-sql-dataset-medusa'' = Inl HubError
   \<and> failing_hub ''philschmid/text-to-sql-dataset-medusa-test-chatml'' = Inr example_dataset
   \<and> run_fetch_cell failing_hub Map.empty = (Map.empty, Some HubError)
   \<and> test_only_dataset ''train'' = None
   \<and> run_fetch_cell test_only_hub Map.empty =
        ([''train_dataset.json'' \<mapsto> []], Some (KeyError ''train''))
   \<and> text_only_train ''messages'' = None
   \<and> run_fetch_cell text_only_hub Map.empty =
        ([''train_dataset.json'' \<mapsto> []], Some (KeyError ''messages''))"
proof -
  have h1: "failing_hub ''philschmid/text-to-sql-dataset-medusa'' = Inl HubError"
    by (simp add: failing_hub_def)
  have h1': "failing_hub ''philschmid/text-to-sql-dataset-medusa-test-chatml'' = Inr example_dataset"
    by (simp add: failing_hub_def)
  have h2: "test_only_hub ''philschmid/text-to-sql-dataset-medusa'' = Inr test_only_dataset"
    by (simp add: test_only_hub_def)
  have t2: "test_only_dataset ''train'' = None"
    by (simp add: test_only_dataset_def)
  have h3: "text_only_hub ''philschmid/text-to-sql-dataset-medusa'' = Inr text_only_dataset"
    by (simp add: text_only_hub_def)
  have t3: "text_only_dataset ''train'' = Some text_only_train"
    by (simp add: text_only_dataset_def)
  have m3: "text_only_train ''messages'' = None"
    by (simp add: text_only_train_def)
  note a = run_stops_only_where_kernel_raises [where load_dataset = failing_hub and e = HubError and fs = Map.empty]
  note b = run_stops_only_where_kernel_raises [where load_dataset = test_only_hub and dataset = test_only_dataset
      and fs = Map.empty]
  note c = run_stops_only_where_kernel_raises [where load_dataset = text_only_hub and dataset = text_only_dataset
      and train = text_only_train and fs = Map.empty]
  have r1: "run_fetch_cell failing_hub Map.empty = (Map.empty, Some HubError)"
    using a h1 by blast
  have r2: "run_fetch_cell test_only_hub Map.empty =
      ([''train_dataset.json'' \<mapsto> []], Some (KeyError ''train''))"
    using b h2 t2 by blast
  have r3: "run_fetch_cell text_only_hub Map.empty =
      ([''train_dataset.json'' \<mapsto> []], Some (KeyError ''messages''))"
    using c h3 t3 m3 by blast
  from h1 h1' r1 t2 r2 m3 r3 show ?thesis
    by blast
qed

text \<open>
  Claim C8. The command that starts the baseline server is the command that starts the
  Medusa server with one word replaced, the \<^verbatim>\<open>MODEL_ID\<close> assignment. Both have the same
  GPU selection (\<^verbatim>\<open>CUDA_VISIBLE_DEVICES=0\<close>, \<^verbatim>\<open>--gpus all\<close>), \<^verbatim>\<open>--shm-size 1g\<close>,
  \<^verbatim>\<open>--ipc=host\<close>, \<^verbatim>\<open>-p 8080:80\<close>, \<^verbatim>\<open>NUM_SHARD=1\<close>, \<^verbatim>\<open>MAX_INPUT_TOKENS=4096\<close>,
  \<^verbatim>\<open>MAX_TOTAL_TOKENS=6000\<close> and the same image tag.
\<close>

theorem controlled_comparison:
  "baseline_server_command =
     server_command[13 := ''MODEL_ID=philschmid/code-llama-3-1-8b-text-to-sql'']
   \<and> server_command ! 13 = ''MODEL_ID=philschmid/code-llama-3-1-8b-text-to-sql-medusa''
   \<and> takeWhile is_assignment server_command = [''CUDA_VISIBLE_DEVICES=0'']
   \<and> option_arg ''--gpus'' server_command = Some ''all''
   \<and> option_arg ''--shm-size'' server_command = Some ''1g''
   \<and> ''--ipc=host'' \<in> set server_command
   \<and> option_arg ''-p'' server_command = Some ''8080:80''
   \<and> container_env server_command =
        [(''MODEL_ID'', ''philschmid/code-llama-3-1-8b-text-to-sql-medusa''),
         (''NUM_SHARD'', ''1''), (''MAX_INPUT_TOKENS'', ''4096''), (''MAX_TOTAL_TOKENS'', ''6000'')]
   \<and> container_env baseline_server_command =
        [(''MODEL_ID'', ''philschmid/code-llama-3-1-8b-text-to-sql''),
         (''NUM_SHARD'', ''1''), (''MAX_INPUT_TOKENS'', ''4096''), (''MAX_TOTAL_TOKENS'', ''6000'')]
   \<and> last server_command = ''ghcr.io/huggingface/text-generation-inference:sha-b70ae09''
   \<and> last baseline_server_command = ''ghcr.io/huggingface/text-generation-inference:sha-b70ae09''"
  by (simp add: server_command_words baseline_server_command_words container_env_def
      assignment_def is_assignment_def is_name_char_def digit_of_def)

text \<open>
  Claim C9. Two datasets whose train splits have the same messages column lead to the
  same files and the same result, whatever their other splits and columns hold: nothing
  but that column reaches the disk. After the cell \<^verbatim>\<open>train_dataset.json\<close> holds that
  column as one JSON list (or nothing, when the column is missing), and every other file
  is as it was before.
\<close>

theorem only_train_messages_written:
  assumes "load_dataset ''philschmid/text-to-sql-dataset-medusa'' = Inr dataset"
      and "load_dataset' ''philschmid/text-to-sql-dataset-medusa'' = Inr dataset'"
      and "dataset ''train'' = Some train"
      and "dataset' ''train'' = Some train'"
      and "train ''messages'' = train' ''messages''"
  shows "run_fetch_cell load_dataset fs = run_fetch_cell load_dataset' fs
         \<and> fst (run_fetch_cell load_dataset fs) ''train_dataset.json'' =
             Some (case train ''messages'' of None \<Rightarrow> [] | Some messages \<Rightarrow> [JArray messages])
         \<and> (fst (run_fetch_cell load_dataset fs))(''train_dataset.json'' := fs ''train_dataset.json'') = fs"
  using assms
  by (auto simp add: run_fetch_cell_def getitem_def open_w_def json_dump_def split: option.splits)

text \<open>
  The hypotheses of C9 hold for two datasets that differ in their test splits and in the
  columns of their train splits.
\<close>

theorem only_train_messages_written_witness:
  "example_dataset ''test'' \<noteq> other_dataset ''test''
   \<and> dom example_train \<noteq> dom other_train
   \<and> example_train ''messages'' = other_train ''messages''
   \<and> run_fetch_cell example_hub Map.empty = run_fetch_cell other_hub Map.empty
   \<and> fst (run_fetch_cell example_hub Map.empty) ''train_dataset.json'' =
        Some [JArray example_messages]
   \<and> (fst (run_fetch_cell example_hub Map.empty))(''train_dataset.json'' := None) = Map.empty"
proof -
  have h: "example_hub ''philschmid/text-to-sql-dataset-medusa'' = Inr example_dataset"
    by (simp add: example_hub_def)
  have h': "other_hub ''philschmid/text-to-sql-dataset-medusa'' = Inr other_dataset"
    by (simp add: other_hub_def)
  have t: "example_dataset ''train'' = Some example_train"
    by (simp add: example_dataset_def)
  have t': "other_dataset ''train'' = Some other_train"
    by (simp add: other_dataset_def)
  have m: "example_train ''messages'' = other_train ''messages''"
    by (simp add: example_train_def other_train_def)
  have d: "example_dataset ''test'' \<noteq> other_dataset ''test''"
  proof
    assume "example_dataset ''test'' = other_dataset ''test''"
    then have "the (example_dataset ''test'') ''text'' = the (other_dataset ''test'') ''text''"
      by simp
    then show False
      by (simp add: example_dataset_def other_dataset_def)
  qed
  have c: "dom example_train \<noteq> dom other_train"
    by (simp add: example_train_def other_train_def)
  have v: "example_train ''messages'' = Some example_messages"
    by (simp add: example_train_def)
  note r =
    only_train_messages_written
      [of example_hub example_dataset other_hub other_dataset example_train other_train
          Map.empty, OF h h' t t' m]
  have r1: "run_fetch_cell example_hub Map.empty = run_fetch_cell other_hub Map.empty"
    by (rule r [THEN conjunct1])
  have r2: "fst (run_fetch_cell example_hub Map.empty) ''train_dataset.json'' =
      Some [JArray example_messages]"
    using r [THEN conjunct2, THEN conjunct1] by (simp add: v)
  have r3: "(fst (run_fetch_cell example_hub Map.empty))(''train_dataset.json'' := None) = Map.empty"
    using r [THEN conjunct2, THEN conjunct2] by simp
  from d c m r1 r2 r3 show ?thesis
    by blast
qed

section \<open>The model named by the test request\<close>

text \<open>
  What the notebook fixes about the model of the test request: the \<^verbatim>\<open>model\<close> field of the
  request is the string \<^verbatim>\<open>tgi\<close>, which is not the identifier of the uploaded model; that
  identifier occurs in no word of the request; the server command names the model in one
  word only, the \<^verbatim>\<open>MODEL_ID\<close> assignment of the container's environment. Which model the
  server serves for such a request is decided by the server program, which is no part of
  the notebook: this lemma says nothing about it.
\<close>

lemma request_model_field:
  "Option.bind request_body (field ''model'') = Some (JString ''tgi'')
   \<and> option_arg ''--repo'' upload_command = Some ''philschmid/code-llama-3-1-8b-text-to-sql-medusa''
   \<and> ''tgi'' \<noteq> ''philschmid/code-llama-3-1-8b-text-to-sql-medusa''
   \<and> filter (contains ''philschmid/code-llama-3-1-8b-text-to-sql-medusa'') request_command = []
   \<and> map_of (container_env server_command) ''MODEL_ID'' =
        Some ''philschmid/code-llama-3-1-8b-text-to-sql-medusa''
   \<and> filter (contains ''philschmid/code-llama-3-1-8b-text-to-sql-medusa'') server_command =
        [''MODEL_ID=philschmid/code-llama-3-1-8b-text-to-sql-medusa'']"
  by code_simp

end
